theory Spec2Isabelle
  imports Main
begin

section \<open>Values, rows and the KAP\_NOTIFICATIONS table\<close>

text \<open>
  The values the program passes to and reads from sqlite3: \<open>None\<close> (SQL NULL), Python
  integers and strings. A notification dictionary is an association list, because
  \<open>save_notification\<close> binds \<open>list(notification.values())\<close> to the statement's
  placeholders by position and by number.
\<close>

datatype pyval = PNone | PInt int | PStr string

type_synonym pydict = "(string \<times> pyval) list"

text \<open>
  SQLite stores integers in 64 bits. \<open>sqlite3\<close> raises \<open>OverflowError\<close> ("Python int
  too large to convert to SQLite INTEGER") when a Python integer outside that range is
  bound to a placeholder.
\<close>

definition sqlite_int :: "int \<Rightarrow> bool" where
  "sqlite_int n = (- (2 ^ 63) \<le> n \<and> n < 2 ^ 63)"

fun bindable :: "pyval \<Rightarrow> bool" where
  "bindable (PInt n) = sqlite_int n"
| "bindable v = True"

text \<open>The decimal text of an integer, as an f-string and SQLite write it.\<close>

definition digit_char :: "nat \<Rightarrow> char" where
  "digit_char d = ''0123456789'' ! d"

fun str_nat :: "nat \<Rightarrow> string" where
  "str_nat n = (if n < 10 then [digit_char n] else str_nat (n div 10) @ [digit_char (n mod 10)])"

declare str_nat.simps [simp del]

definition str_int :: "int \<Rightarrow> string" where
  "str_int i = (if i < 0 then CHR ''-'' # str_nat (nat (- i)) else str_nat (nat i))"

text \<open>
  The order of SQLite on stored values: NULL is below every integer, every integer is
  below every text, and texts compare character by character (which is the order of
  their UTF-8 bytes).
\<close>

fun str_less :: "string \<Rightarrow> string \<Rightarrow> bool" where
  "str_less [] [] = False"
| "str_less [] (y # ys) = True"
| "str_less (x # xs) [] = False"
| "str_less (x # xs) (y # ys) =
     ((of_char x :: nat) < of_char y \<or> (x = y \<and> str_less xs ys))"

fun sql_less :: "pyval \<Rightarrow> pyval \<Rightarrow> bool" where
  "sql_less PNone PNone = False"
| "sql_less PNone _ = True"
| "sql_less (PInt a) (PInt b) = (a < b)"
| "sql_less (PInt a) (PStr t) = True"
| "sql_less (PInt a) PNone = False"
| "sql_less (PStr s) (PStr t) = str_less s t"
| "sql_less (PStr s) _ = False"

text \<open>The exceptions that the modelled code can raise.\<close>

datatype error =
    ProgrammingError
  | OperationalError
  | IndexError
  | TypeError
  | NameError
  | ValueError
  | AttributeError
  | ZeroDivisionError
  | ServiceError

text \<open>
  One row of \<open>KAP_NOTIFICATIONS\<close>, with the columns in the order of
  \<open>sql_create_tbl_notifs\<close>. The table declares no key and no constraint, so it is a
  list of rows (in rowid order) that may hold the same id twice.
\<close>

record row =
  CODE :: pyval
  NOTIFICATION_ID :: pyval
  PUBLISH_DATE :: pyval
  DISCLOSURE_TYPE :: pyval
  YEAR :: pyval
  PERIOD :: pyval
  SUMMARY_INFO :: pyval
  RELATED_COMPANIES :: pyval
  EXPLANATIONS :: pyval
  EXPLANATION_SUMMARY :: pyval

type_synonym table = "row list"

datatype column =
    Col_CODE | Col_NOTIFICATION_ID | Col_PUBLISH_DATE | Col_DISCLOSURE_TYPE | Col_YEAR
  | Col_PERIOD | Col_SUMMARY_INFO | Col_RELATED_COMPANIES | Col_EXPLANATIONS
  | Col_EXPLANATION_SUMMARY

fun get_column :: "column \<Rightarrow> row \<Rightarrow> pyval" where
  "get_column Col_CODE r = CODE r"
| "get_column Col_NOTIFICATION_ID r = NOTIFICATION_ID r"
| "get_column Col_PUBLISH_DATE r = PUBLISH_DATE r"
| "get_column Col_DISCLOSURE_TYPE r = DISCLOSURE_TYPE r"
| "get_column Col_YEAR r = YEAR r"
| "get_column Col_PERIOD r = PERIOD r"
| "get_column Col_SUMMARY_INFO r = SUMMARY_INFO r"
| "get_column Col_RELATED_COMPANIES r = RELATED_COMPANIES r"
| "get_column Col_EXPLANATIONS r = EXPLANATIONS r"
| "get_column Col_EXPLANATION_SUMMARY r = EXPLANATION_SUMMARY r"

fun set_column :: "column \<Rightarrow> pyval \<Rightarrow> row \<Rightarrow> row" where
  "set_column Col_CODE v r = r\<lparr>CODE := v\<rparr>"
| "set_column Col_NOTIFICATION_ID v r = r\<lparr>NOTIFICATION_ID := v\<rparr>"
| "set_column Col_PUBLISH_DATE v r = r\<lparr>PUBLISH_DATE := v\<rparr>"
| "set_column Col_DISCLOSURE_TYPE v r = r\<lparr>DISCLOSURE_TYPE := v\<rparr>"
| "set_column Col_YEAR v r = r\<lparr>YEAR := v\<rparr>"
| "set_column Col_PERIOD v r = r\<lparr>PERIOD := v\<rparr>"
| "set_column Col_SUMMARY_INFO v r = r\<lparr>SUMMARY_INFO := v\<rparr>"
| "set_column Col_RELATED_COMPANIES v r = r\<lparr>RELATED_COMPANIES := v\<rparr>"
| "set_column Col_EXPLANATIONS v r = r\<lparr>EXPLANATIONS := v\<rparr>"
| "set_column Col_EXPLANATION_SUMMARY v r = r\<lparr>EXPLANATION_SUMMARY := v\<rparr>"

text \<open>
  SQLite resolves column names without regard to ASCII case, so a name spliced into a
  statement is upper-cased before it is looked up among the declared columns.
\<close>

definition ascii_upper :: "char \<Rightarrow> char" where
  "ascii_upper c =
     (case map_of (zip ''abcdefghijklmnopqrstuvwxyz'' ''ABCDEFGHIJKLMNOPQRSTUVWXYZ'') c of
        None \<Rightarrow> c
      | Some u \<Rightarrow> u)"

definition column_of :: "string \<Rightarrow> column option" where
  "column_of name =
     map_of
       [(''CODE'', Col_CODE), (''NOTIFICATION_ID'', Col_NOTIFICATION_ID),
        (''PUBLISH_DATE'', Col_PUBLISH_DATE), (''DISCLOSURE_TYPE'', Col_DISCLOSURE_TYPE),
        (''YEAR'', Col_YEAR), (''PERIOD'', Col_PERIOD), (''SUMMARY_INFO'', Col_SUMMARY_INFO),
        (''RELATED_COMPANIES'', Col_RELATED_COMPANIES), (''EXPLANATIONS'', Col_EXPLANATIONS),
        (''EXPLANATION_SUMMARY'', Col_EXPLANATION_SUMMARY)]
       (map ascii_upper name)"

text \<open>
  The affinity of each column, from its declared type: \<open>varchar\<close> and \<open>TEXT\<close> give
  TEXT, \<open>INT\<close> gives INTEGER, \<open>BLOB\<close> and no type give BLOB. An integer written to a
  column of TEXT affinity is stored as its decimal text. A text written to the INTEGER
  column \<open>NOTIFICATION_ID\<close> is converted by SQLite when it is a numeric literal, possibly
  to a floating-point value; that conversion is not modelled (\<open>stored\<close> keeps the text),
  and the properties below do not cover text written to that column.
\<close>

datatype affinity = TEXT | INTEGER | BLOB

fun column_affinity :: "column \<Rightarrow> affinity" where
  "column_affinity Col_CODE = TEXT"
| "column_affinity Col_NOTIFICATION_ID = INTEGER"
| "column_affinity Col_PUBLISH_DATE = TEXT"
| "column_affinity Col_DISCLOSURE_TYPE = TEXT"
| "column_affinity Col_YEAR = TEXT"
| "column_affinity Col_PERIOD = TEXT"
| "column_affinity Col_SUMMARY_INFO = TEXT"
| "column_affinity Col_RELATED_COMPANIES = BLOB"
| "column_affinity Col_EXPLANATIONS = BLOB"
| "column_affinity Col_EXPLANATION_SUMMARY = BLOB"

fun stored :: "column \<Rightarrow> pyval \<Rightarrow> pyval" where
  "stored c (PInt n) = (if column_affinity c = TEXT then PStr (str_int n) else PInt n)"
| "stored c v = v"

text \<open>The integer ids held in the table, in row order (NULL and text ids are skipped).\<close>

fun int_of :: "pyval \<Rightarrow> int option" where
  "int_of (PInt n) = Some n"
| "int_of _ = None"

definition stored_ids :: "table \<Rightarrow> int list" where
  "stored_ids db = List.map_filter (\<lambda>r. int_of (NOTIFICATION_ID r)) db"

text \<open>A row that holds only an id and an explanation; used for concrete tables.\<close>

definition mk_row :: "int \<Rightarrow> string \<Rightarrow> pyval \<Rightarrow> row" where
  "mk_row n expl summ =
     \<lparr>CODE = PStr ''AVOD'', NOTIFICATION_ID = PInt n, PUBLISH_DATE = PStr ''01.12.2022'',
      DISCLOSURE_TYPE = PStr ''ODA'', YEAR = PStr ''2022'', PERIOD = PStr '''',
      SUMMARY_INFO = PStr '''', RELATED_COMPANIES = PStr ''[]'', EXPLANATIONS = PStr expl,
      EXPLANATION_SUMMARY = summ\<rparr>"

section \<open>The database class\<close>

subsection \<open>update\_notification\<close>

text \<open>
  \<open>update KAP_NOTIFICATIONS set {column_name}=? where NOTIFICATION_ID=?\<close>, committed,
  then \<open>return 1, 'ok'\<close>. The statement raises when it does not compile (the spliced
  name is no column of the table) or when a bound integer does not fit in 64 bits; the
  \<open>except\<close> turns either into \<open>(0, str(ex))\<close>. An UPDATE that matches no row is not
  an error in SQLite, and the code does not look at the row count. \<open>column_name\<close> is
  taken to be a bare identifier; the names \<open>rowid\<close>, \<open>oid\<close> and \<open>_rowid_\<close>, which
  SQLite also accepts, are not modelled.
\<close>

definition update_notification ::
    "table \<Rightarrow> int \<Rightarrow> string \<Rightarrow> pyval \<Rightarrow> (pyval \<times> pyval) \<times> table" where
  "update_notification db notification_id column_name v =
     (case column_of column_name of
        None \<Rightarrow> ((PInt 0, PStr (''no such column: '' @ column_name)), db)
      | Some c \<Rightarrow>
          if bindable v \<and> sqlite_int notification_id
          then ((PInt 1, PStr ''ok''),
                map (\<lambda>r. if NOTIFICATION_ID r = PInt notification_id
                         then set_column c (stored c v) r else r) db)
          else ((PInt 0, PStr ''Python int too large to convert to SQLite INTEGER''), db))"

subsection \<open>get\_missing\_notifications\<close>

text \<open>
  The aggregates \<open>min(notification_id)\<close> and \<open>max(notification_id)\<close> over the
  values of the column: NULL values are skipped, the result is NULL (here \<open>PNone\<close>)
  when nothing is left, and the values are compared in the order of \<open>sql_less\<close>, so
  that a text id is above every integer id.
\<close>

definition sql_min :: "pyval list \<Rightarrow> pyval" where
  "sql_min vs = foldl (\<lambda>a v. if v = PNone then a
                            else if a = PNone \<or> sql_less v a then v else a) PNone vs"

definition sql_max :: "pyval list \<Rightarrow> pyval" where
  "sql_max vs = foldl (\<lambda>a v. if v = PNone then a
                            else if a = PNone \<or> sql_less a v then v else a) PNone vs"

text \<open>
  The query of \<open>get_missing_notifications\<close>: the recursive table \<open>c\<close> holds
  \<open>x = 1, 2, ..., 1000000\<close>; \<open>a\<close> holds \<open>CID = x + min_id\<close> for the \<open>x\<close> with
  \<open>x < max_id - min_id\<close> (no row when the aggregates are NULL); the left join keeps the
  \<open>CID\<close> that no row of the table holds. The statement has no ORDER BY; the rows are
  listed in the order in which \<open>c\<close> generates them. The result is the \<open>CID\<close> column of
  \<open>ret[0]['data']\<close>. When the table holds a text id the maximum is a text and the
  query does arithmetic on text, which SQLite converts through a numeric prefix that
  may be a floating-point value: that case is outside this model, and the function gives
  \<open>None\<close> for it.
\<close>

definition get_missing_notifications :: "table \<Rightarrow> int list option" where
  "get_missing_notifications db =
     (case sql_max (map NOTIFICATION_ID db) of
        PNone \<Rightarrow> Some []
      | PStr t \<Rightarrow> None
      | PInt max_id \<Rightarrow>
          (case sql_min (map NOTIFICATION_ID db) of
             PInt min_id \<Rightarrow>
               Some (filter (\<lambda>cid. cid \<notin> set (stored_ids db))
                      (map (\<lambda>x. x + min_id) (filter (\<lambda>x. x < max_id - min_id) [1..1000000])))
           | _ \<Rightarrow> None))"

subsection \<open>Concrete tables\<close>

text \<open>
  The stored ids \<open>{5, 6, 9, 10, 15}\<close> (in an arbitrary row order), and a table whose
  ids span more than the 1000000 values of the recursive table \<open>c\<close>.
\<close>

definition gap_example :: table where
  "gap_example = map (\<lambda>n. mk_row n ''text'' PNone) [9, 5, 15, 6, 10]"

definition wide_example :: table where
  "wide_example = [mk_row 1 ''text'' PNone, mk_row 1000003 ''text'' PNone]"

subsection \<open>get\_notification, get\_last\_notification, delete\_notification, save\_notification\<close>

text \<open>\<open>dict.get(key, default)\<close> and \<open>list(dict.values())\<close>.\<close>

definition dict_get :: "pydict \<Rightarrow> string \<Rightarrow> pyval \<Rightarrow> pyval" where
  "dict_get d k dflt = (case map_of d k of None \<Rightarrow> dflt | Some v \<Rightarrow> v)"

definition dict_values :: "pydict \<Rightarrow> pyval list" where
  "dict_values d = map snd d"

text \<open>\<open>select * from KAP_NOTIFICATIONS where NOTIFICATION_ID={notification_id}\<close>.\<close>

definition database_get_notification :: "table \<Rightarrow> int \<Rightarrow> row list" where
  "database_get_notification db notification_id =
     filter (\<lambda>r. NOTIFICATION_ID r = PInt notification_id) db"

text \<open>
  \<open>get_last_notification\<close> selects \<open>(NOTIFICATION_ID, PUBLISH_DATE)\<close> of the rows whose
  id equals \<open>max(NOTIFICATION_ID)\<close>. Over an empty table (or one with NULL ids only)
  the maximum is NULL, no row equals NULL, and \<open>fetchall()\<close> is the empty list. The
  function then replaces the result by \<open>-1\<close> when it equals \<open>[(None, None)]\<close>.
\<close>

datatype last_notification = Rows "(pyval \<times> pyval) list" | MinusOne

definition get_last_notification :: "table \<Rightarrow> last_notification" where
  "get_last_notification db =
     (let max_id = sql_max (map NOTIFICATION_ID db);
          ret = (if max_id = PNone then []
                 else map (\<lambda>r. (NOTIFICATION_ID r, PUBLISH_DATE r))
                        (filter (\<lambda>r. NOTIFICATION_ID r = max_id) db))
      in if ret = [(PNone, PNone)] then MinusOne else Rows ret)"

text \<open>
  \<open>delete_notification\<close> splices its argument into
  \<open>DELETE FROM KAP_NOTIFICATIONS WHERE NOTIFICATION_ID={notification_id}\<close>, runs it on a
  connection of its own and commits. With \<open>None\<close> the statement reads
  \<open>NOTIFICATION_ID=None\<close> and does not compile ("no such column: None"). The
  documented argument is an integer. A string argument becomes part of the SQL text;
  the model renders it as a statement that does not compile, which is what SQLite
  answers for a word that names no column, and the properties below do not cover it.
\<close>

fun delete_notification :: "table \<Rightarrow> pyval \<Rightarrow> error + table" where
  "delete_notification db (PInt notification_id) =
     Inr (filter (\<lambda>r. NOTIFICATION_ID r \<noteq> PInt notification_id) db)"
| "delete_notification db _ = Inl OperationalError"

text \<open>
  The INSERT statement has ten placeholders; \<open>execute\<close> raises
  \<open>sqlite3.ProgrammingError\<close> (incorrect number of bindings supplied) unless exactly ten
  values are given, and then \<open>OverflowError\<close> when one of them is an integer that does
  not fit in 64 bits. The values are bound by position and stored under the affinity of
  their column.
\<close>

fun row_of_values :: "pyval list \<Rightarrow> row option" where
  "row_of_values [v0, v1, v2, v3, v4, v5, v6, v7, v8, v9] =
     Some \<lparr>CODE = stored Col_CODE v0,
           NOTIFICATION_ID = stored Col_NOTIFICATION_ID v1,
           PUBLISH_DATE = stored Col_PUBLISH_DATE v2,
           DISCLOSURE_TYPE = stored Col_DISCLOSURE_TYPE v3,
           YEAR = stored Col_YEAR v4,
           PERIOD = stored Col_PERIOD v5,
           SUMMARY_INFO = stored Col_SUMMARY_INFO v6,
           RELATED_COMPANIES = stored Col_RELATED_COMPANIES v7,
           EXPLANATIONS = stored Col_EXPLANATIONS v8,
           EXPLANATION_SUMMARY = stored Col_EXPLANATION_SUMMARY v9\<rparr>"
| "row_of_values _ = None"

text \<open>
  \<open>save_notification\<close>: inside one \<open>try\<close>, call \<open>delete_notification\<close> with
  \<open>notification.get('notification_id', -1)\<close> (which commits on its own connection), then
  execute the INSERT with \<open>list(notification.values())\<close> and commit; any exception
  becomes the result \<open>(0, str(ex))\<close>. \<open>save_notification_steps\<close> gives the result
  together with the table as it stands after each commit, in order; the table that
  \<open>save_notification\<close> leaves is the last of them (the table it started from when
  nothing was committed).
\<close>

definition save_notification_steps :: "table \<Rightarrow> pydict \<Rightarrow> (pyval \<times> pyval) \<times> table list" where
  "save_notification_steps db notification =
     (case delete_notification db (dict_get notification ''notification_id'' (PInt (- 1))) of
        Inl e \<Rightarrow>
          ((PInt 0,
            PStr (''no such column: '' @
                  (case dict_get notification ''notification_id'' (PInt (- 1)) of
                     PStr s \<Rightarrow> s
                   | _ \<Rightarrow> ''None''))),
           [])
      | Inr db1 \<Rightarrow>
          (case row_of_values (dict_values notification) of
             None \<Rightarrow>
               ((PInt 0,
                 PStr (''Incorrect number of bindings supplied. The current statement uses 10, ''
                       @ ''and there are '' @ str_nat (length (dict_values notification))
                       @ '' supplied.'')),
                [db1])
           | Some r \<Rightarrow>
               if list_all bindable (dict_values notification)
               then ((PInt 1, PStr ''ok''), [db1, db1 @ [r]])
               else ((PInt 0, PStr ''Python int too large to convert to SQLite INTEGER''),
                     [db1])))"

definition save_notification :: "table \<Rightarrow> pydict \<Rightarrow> (pyval \<times> pyval) \<times> table" where
  "save_notification db notification =
     (fst (save_notification_steps db notification),
      last (db # snd (save_notification_steps db notification)))"

section \<open>The reader class\<close>

subsection \<open>The web site and the state of a run\<close>

text \<open>
  What \<open>requests.get\<close> does for one notification page: it raises (timeout, connection
  reset, DNS failure, ...) or returns a response with a status code and a document.
  Field extraction is out of scope: the document is either one from which every field
  is extracted, or one on which an index into an empty \<open>find_all\<close> result raises
  \<open>IndexError\<close>.
\<close>

record fields =
  code :: string
  publish_date :: string
  disclosure_tpye :: string
  year :: string
  period :: string
  summary :: string
  related :: string
  explanations :: string

datatype page = Malformed | Page fields

datatype http = RequestException | Response int page

text \<open>
  The site answers a request by language, id (\<open>nid\<close> below, as \<open>id\<close> is the identity
  function of HOL) and the number of earlier requests for that
  id, so that an id may fail a few times and then succeed.
\<close>

type_synonym web = "string \<Rightarrow> int \<Rightarrow> nat \<Rightarrow> http"

text \<open>
  The state of a run: the table in \<open>kap.db\<close>, the ids requested from the site so far
  (oldest first), and the lines of \<open>log.txt\<close>. A log line \<open>(i, j, marks)\<close> stands for
  \<open>'{i};{j};{time}' + marks\<close>; the timestamp is left out.
\<close>

type_synonym log_line = "nat \<times> int \<times> string"

record world =
  store :: table
  requests :: "int list"
  log_txt :: "log_line list"

subsection \<open>get\_notification\<close>

text \<open>What \<open>reader.get_notification\<close> returns: a dictionary, or the parsed document.\<close>

datatype fetched = Dict pydict | Soup page

definition notification_dict :: "int \<Rightarrow> fields \<Rightarrow> pydict" where
  "notification_dict nid f =
     [(''code'', PStr (code f)),
      (''notification_id'', PInt nid),
      (''publish_date'', PStr (publish_date f)),
      (''disclosure_tpye'', PStr (disclosure_tpye f)),
      (''year'', PStr (year f)),
      (''period'', PStr (period f)),
      (''summary'', PStr (summary f)),
      (''related'', PStr (related f)),
      (''explanations'', PStr (explanations f))]"

text \<open>
  \<open>reader.get_notification(id, lang, return_soup)\<close>: an exception of \<open>requests.get\<close>
  gives \<open>{'error': 'request error'}\<close>; a status code other than 200 gives
  \<open>{'error': 'not found'}\<close>; otherwise the fields are extracted (an exception there is
  not caught), the dictionary \<open>ret\<close> is built, \<open>self.db.save_notification(ret)\<close> is
  called with its result discarded, and \<open>ret\<close> is returned.
\<close>

definition get_notification ::
    "web \<Rightarrow> world \<Rightarrow> int \<Rightarrow> string \<Rightarrow> bool \<Rightarrow> (error + fetched) \<times> world" where
  "get_notification site w nid lang return_soup =
     (let w1 = w\<lparr>requests := requests w @ [nid]\<rparr> in
      case site lang nid (count_list (requests w) nid) of
        RequestException \<Rightarrow> (Inr (Dict [(''error'', PStr ''request error'')]), w1)
      | Response status_code content \<Rightarrow>
          if status_code \<noteq> 200 then (Inr (Dict [(''error'', PStr ''not found'')]), w1)
          else if return_soup then (Inr (Soup content), w1)
          else (case content of
                  Malformed \<Rightarrow> (Inl IndexError, w1)
                | Page f \<Rightarrow>
                    (let ret = notification_dict nid f in
                     (Inr (Dict ret),
                      w1\<lparr>store := snd (save_notification (store w1) ret)\<rparr>))))"

subsection \<open>get\_notifications\<close>

definition notification_initial_id :: int where
  "notification_initial_id = 1083300"

text \<open>
  \<open>isinstance(notif, type(None))\<close>: neither a dictionary nor a parsed document is
  \<open>None\<close>.
\<close>

fun is_None :: "fetched \<Rightarrow> bool" where
  "is_None (Dict d) = False"
| "is_None (Soup p) = False"

text \<open>
  The loop of \<open>get_notifications\<close> over \<open>range(last_notif_id+1, last_notif_id+1+limit)\<close>:
  fetch the id; \<open>raise StopIteration\<close> (caught, "final page reached") when the result
  is \<open>None\<close>; otherwise sleep, print progress and go on. Any other exception leaves
  the function. The function returns \<open>None\<close> in every case.
\<close>

fun get_notifications_loop :: "web \<Rightarrow> world \<Rightarrow> int list \<Rightarrow> (error + unit) \<times> world" where
  "get_notifications_loop site w [] = (Inr (), w)"
| "get_notifications_loop site w (nid # ids) =
     (case get_notification site w nid ''tr'' False of
        (Inl e, w') \<Rightarrow> (Inl e, w')
      | (Inr notif, w') \<Rightarrow>
          if is_None notif then (Inr (), w')
          else get_notifications_loop site w' ids)"

text \<open>
  \<open>last_notif_id, last_notif_date = self.db.get_last_notification()[0]\<close>: indexing
  \<open>-1\<close> is a \<open>TypeError\<close>, indexing the empty list an \<open>IndexError\<close>; then
  \<open>if last_notif_id==-1: last_notif_id = self.notification_initial_id\<close>.
\<close>

definition get_notifications :: "web \<Rightarrow> world \<Rightarrow> int \<Rightarrow> (error + unit) \<times> world" where
  "get_notifications site w limit =
     (case get_last_notification (store w) of
        MinusOne \<Rightarrow> (Inl TypeError, w)
      | Rows [] \<Rightarrow> (Inl IndexError, w)
      | Rows ((last_notif_id, last_notif_date) # _) \<Rightarrow>
          (case (if last_notif_id = PInt (- 1) then PInt notification_initial_id
                 else last_notif_id) of
             PInt last_id \<Rightarrow> get_notifications_loop site w [last_id + 1..last_id + limit]
           | _ \<Rightarrow> (Inl TypeError, w)))"

subsection \<open>\_refresh\_all\_notifications\<close>

text \<open>\<open>ret.get('error', '')\<close> on what \<open>get_notification\<close> returned.\<close>

fun get_error :: "fetched \<Rightarrow> pyval" where
  "get_error (Dict d) = dict_get d ''error'' (PStr '''')"
| "get_error (Soup p) = PStr ''''"

text \<open>
  The retry loop
  \<open>while ret.get('error','') == 'request error': logr = logr + '~'; time.sleep(10);
  ret = kr.get_notification(j)\<close>. The name \<open>kr\<close> is bound nowhere in the module (the
  method's receiver is \<open>self\<close>), so evaluating it raises \<open>NameError\<close> in the first
  pass through the body, before any second request is made.
\<close>

definition retry_loop :: "world \<Rightarrow> fetched \<Rightarrow> string \<Rightarrow> (error + fetched \<times> string) \<times> world" where
  "retry_loop w ret logr =
     (if get_error ret = PStr ''request error'' then (Inl NameError, w)
      else (Inr (ret, logr), w))"

text \<open>
  The loop of \<open>_refresh_all_notifications\<close> over \<open>enumerate(range(start, stop))\<close>, with
  the in-memory \<open>log\<close>: on a request error enter the retry loop, then append \<open>';'\<close>;
  otherwise append \<open>'.;'\<close>; append the line to \<open>log\<close>; when \<open>i > 0\<close> and
  \<open>i % 50 == 0\<close> write \<open>log\<close> to \<open>log.txt\<close> and empty it.
\<close>

fun refresh_loop ::
    "web \<Rightarrow> world \<Rightarrow> log_line list \<Rightarrow> nat \<Rightarrow> int list \<Rightarrow> (error + unit) \<times> world" where
  "refresh_loop site w log i [] = (Inr (), w)"
| "refresh_loop site w log i (j # js) =
     (case get_notification site w j ''tr'' False of
        (Inl e, w1) \<Rightarrow> (Inl e, w1)
      | (Inr ret, w1) \<Rightarrow>
          (case (if get_error ret = PStr ''request error''
                 then (case retry_loop w1 ret '''' of
                         (Inl e, w2) \<Rightarrow> (Inl e, w2)
                       | (Inr (ret', logr), w2) \<Rightarrow> (Inr (logr @ '';''), w2))
                 else (Inr ''.;'', w1)) of
             (Inl e, w2) \<Rightarrow> (Inl e, w2)
           | (Inr logr, w2) \<Rightarrow>
               (let log' = log @ [(i, j, logr)] in
                if i > 0 \<and> i mod 50 = 0
                then refresh_loop site (w2\<lparr>log_txt := log_txt w2 @ log'\<rparr>) [] (i + 1) js
                else refresh_loop site w2 log' (i + 1) js)))"

text \<open>
  \<open>start = start or kdf['data'][0][0]\<close> and
  \<open>stop = stop or kdf['data'][0][0]+kdf['data'][0][2]+1\<close>, where \<open>kdf\<close> holds
  \<open>min(NOTIFICATION_ID)\<close> and \<open>count(*)\<close>: an argument that is \<open>None\<close> or \<open>0\<close> is
  replaced. Over an empty table the minimum is \<open>None\<close>, and adding to it, or passing
  it to \<open>range\<close>, is a \<open>TypeError\<close>; likewise when the minimum is a text.
\<close>

definition refresh_all_notifications ::
    "web \<Rightarrow> world \<Rightarrow> int option \<Rightarrow> int option \<Rightarrow> (error + unit) \<times> world" where
  "refresh_all_notifications site w start stop =
     (let min_id = sql_min (map NOTIFICATION_ID (store w));
          count = int (length (store w));
          start' = (case start of
                      None \<Rightarrow> min_id
                    | Some s \<Rightarrow> if s = 0 then min_id else PInt s)
      in case (case stop of
                 None \<Rightarrow> (case min_id of PInt m \<Rightarrow> Inr (m + count + 1) | _ \<Rightarrow> Inl TypeError)
               | Some t \<Rightarrow>
                   if t = 0
                   then (case min_id of PInt m \<Rightarrow> Inr (m + count + 1) | _ \<Rightarrow> Inl TypeError)
                   else Inr t) of
           Inl e \<Rightarrow> (Inl e, w)
         | Inr stop' \<Rightarrow>
             (case start' of
                PInt s \<Rightarrow> refresh_loop site w [] 0 [s..stop' - 1]
              | _ \<Rightarrow> (Inl TypeError, w)))"

subsection \<open>Concrete sites and states\<close>

definition sample_fields :: fields where
  "sample_fields =
     \<lparr>code = ''AVOD'', publish_date = ''01.12.2022 18:05:11'', disclosure_tpye = ''ODA'',
      year = ''2022'', period = '''', summary = ''Ozet'', related = ''[]'',
      explanations = ''Aciklama''\<rparr>"

text \<open>A dictionary with the ten keys that the docstring of \<open>save_notification\<close> lists.\<close>

definition notification10 :: pydict where
  "notification10 = notification_dict 5 sample_fields @ [(''explanation_summary'', PNone)]"

text \<open>A state whose table holds the single id 100, with nothing requested yet.\<close>

definition world100 :: world where
  "world100 = \<lparr>store = [mk_row 100 ''text'' PNone], requests = [], log_txt = []\<rparr>"

text \<open>A state whose table already holds id 5.\<close>

definition world5 :: world where
  "world5 = \<lparr>store = [mk_row 5 ''old'' PNone], requests = [], log_txt = []\<rparr>"

text \<open>Ids 101 to 110 exist, every other id answers 404.\<close>

definition site_frontier :: web where
  "site_frontier lang nid k =
     (if 101 \<le> nid \<and> nid \<le> 110 then Response 200 (Page sample_fields)
      else Response 404 Malformed)"

text \<open>The request for id 105 raises; every other id exists.\<close>

definition site_error_105 :: web where
  "site_error_105 lang nid k =
     (if nid = 105 then RequestException else Response 200 (Page sample_fields))"

text \<open>The first three requests for id 7 raise; after that it exists, as every other id.\<close>

definition site_flaky_7 :: web where
  "site_flaky_7 lang nid k =
     (if nid = 7 \<and> k < 3 then RequestException else Response 200 (Page sample_fields))"

text \<open>Every request is answered with status 503.\<close>

definition site_503 :: web where
  "site_503 lang nid k = Response 503 Malformed"

text \<open>Every id exists.\<close>

definition site_all :: web where
  "site_all lang nid k = Response 200 (Page sample_fields)"

subsection \<open>Summaries\<close>

text \<open>
  The summarization API behind \<open>summarize_explanation\<close>: for the text it is sent it
  gives the summary and the token count, or \<open>None\<close> when the call raises or the timeout
  decorator fires.
\<close>

type_synonym service = "string \<Rightarrow> (string \<times> int) option"

definition API_MAX_CONTEXT_LENGTH :: nat where
  "API_MAX_CONTEXT_LENGTH = 4097"

text \<open>
  \<open>summarize_explanation\<close> sends \<open>explanation[:API_MAX_CONTEXT_LENGTH]\<close>; slicing a
  value that is not a string is a \<open>TypeError\<close>.
\<close>

definition summarize_explanation :: "service \<Rightarrow> pyval \<Rightarrow> error + string \<times> int" where
  "summarize_explanation api explanation =
     (case explanation of
        PStr s \<Rightarrow>
          (case api (take API_MAX_CONTEXT_LENGTH s) of
             None \<Rightarrow> Inl ServiceError
           | Some r \<Rightarrow> Inr r)
      | _ \<Rightarrow> Inl TypeError)"
















text \<open>
  What one successful enrichment makes of a row: its \<open>EXPLANATION_SUMMARY\<close> becomes the
  summary of its truncated explanation, a semicolon and the token count.
\<close>

definition enriched :: "service \<Rightarrow> row \<Rightarrow> row" where
  "enriched api r =
     (case summarize_explanation api (EXPLANATIONS r) of
        Inl e \<Rightarrow> r
      | Inr (explanation_summary, total_tokens) \<Rightarrow>
          r\<lparr>EXPLANATION_SUMMARY := PStr (explanation_summary @ '';'' @ str_int total_tokens)\<rparr>)"



section \<open>Properties\<close>

lemma get_set_column:
  "get_column c' (set_column c v r) = (if c' = c then v else get_column c' r)"
  by (cases c; cases c') simp_all

lemma column_of_EXPLANATION_SUMMARY [simp]:
  "column_of ''EXPLANATION_SUMMARY'' = Some Col_EXPLANATION_SUMMARY"
  by (simp add: column_of_def ascii_upper_def)

lemma stored_ids_Nil [simp]: "stored_ids [] = []"
  by (simp add: stored_ids_def)

lemma stored_ids_Cons [simp]:
  "stored_ids (r # db) =
     (case NOTIFICATION_ID r of PInt n \<Rightarrow> n # stored_ids db | _ \<Rightarrow> stored_ids db)"
  by (cases "NOTIFICATION_ID r") (simp_all add: stored_ids_def)

lemma stored_ids_append [simp]: "stored_ids (xs @ ys) = stored_ids xs @ stored_ids ys"
  by (induction xs) (simp_all split: pyval.splits)

lemma set_stored_ids: "set (stored_ids db) = {n. \<exists>r \<in> set db. NOTIFICATION_ID r = PInt n}"
  by (induction db) (auto split: pyval.splits)

lemma column_of_YEAR [simp]: "column_of ''YEAR'' = Some Col_YEAR"
  by (simp add: column_of_def ascii_upper_def)

lemma sqlite_int_small [simp]: "\<bar>n\<bar> < 2 ^ 63 \<Longrightarrow> sqlite_int n"
  by (simp add: sqlite_int_def abs_less_iff)

subsection \<open>C9: partial update\<close>

text \<open>
  C9, as stated, fails: for an id that no row holds, \<open>update_notification\<close> reports
  success. Here the table holds id 7 only and id 5 is updated: the result is
  \<open>(1, 'ok')\<close> and the table is unchanged.
\<close>

theorem update_notification_absent_counterexample:
  "5 \<notin> set (stored_ids [mk_row 7 ''text'' PNone]) \<and>
   update_notification [mk_row 7 ''text'' PNone] 5 ''EXPLANATION_SUMMARY'' (PStr ''ozet;12'')
     = ((PInt 1, PStr ''ok''), [mk_row 7 ''text'' PNone])"
  by (simp add: update_notification_def mk_row_def)

text \<open>
  C9 (amended): for every id, present or absent, every column name of the table and
  every value, where the id and the value can be bound (an integer fits in 64 bits) and
  the value is not a text written to \<open>NOTIFICATION_ID\<close>, \<open>update_notification\<close> reports
  success \<open>(1, 'ok')\<close>; it keeps the number and order of the rows, sets exactly the
  named column, in every row holding that id, to the value as the column stores it (an
  integer written to a text column becomes its decimal text), and changes no other
  column and no other row. When the id is absent the table is unchanged.
\<close>

theorem update_notification_sets_named_column:
  assumes "column_of name = Some c"
    and "sqlite_int n"
    and "bindable v"
    and "c = Col_NOTIFICATION_ID \<longrightarrow> (\<forall>s. v \<noteq> PStr s)"
  shows "fst (update_notification db n name v) = (PInt 1, PStr ''ok'') \<and>
         length (snd (update_notification db n name v)) = length db \<and>
         (\<forall>i < length db. \<forall>c'.
            get_column c' (snd (update_notification db n name v) ! i) =
              (if c' = c \<and> NOTIFICATION_ID (db ! i) = PInt n then stored c v
               else get_column c' (db ! i))) \<and>
         (n \<notin> set (stored_ids db) \<longrightarrow> snd (update_notification db n name v) = db)"
proof -
  have absent: "n \<notin> set (stored_ids db) \<Longrightarrow>
      map (\<lambda>r. if NOTIFICATION_ID r = PInt n then set_column c (stored c v) r else r) db = db"
    by (rule map_idI) (auto simp: set_stored_ids)
  show ?thesis
    using assms(1-3) absent by (simp add: update_notification_def get_set_column)
qed

theorem update_notification_sets_named_column_witness:
  "column_of ''EXPLANATION_SUMMARY'' = Some Col_EXPLANATION_SUMMARY \<and>
   sqlite_int 7 \<and> bindable (PStr ''ozet;12'') \<and>
   fst (update_notification [mk_row 7 ''text'' PNone] 7 ''EXPLANATION_SUMMARY'' (PStr ''ozet;12''))
     = (PInt 1, PStr ''ok'') \<and>
   EXPLANATION_SUMMARY
     (snd (update_notification [mk_row 7 ''text'' PNone] 7 ''EXPLANATION_SUMMARY'' (PStr ''ozet;12'')) ! 0)
     = PStr ''ozet;12'' \<and>
   column_of ''YEAR'' = Some Col_YEAR \<and> bindable (PInt 2023) \<and>
   YEAR (snd (update_notification [mk_row 7 ''text'' PNone] 7 ''YEAR'' (PInt 2023)) ! 0)
     = PStr ''2023''"
proof -
  have a: "column_of ''EXPLANATION_SUMMARY'' = Some Col_EXPLANATION_SUMMARY"
    and b: "sqlite_int 7" and c: "bindable (PStr ''ozet;12'')"
    and d: "Col_EXPLANATION_SUMMARY = Col_NOTIFICATION_ID \<longrightarrow> (\<forall>s. PStr ''ozet;12'' \<noteq> PStr s)"
    by simp_all
  have e: "column_of ''YEAR'' = Some Col_YEAR" and f: "bindable (PInt 2023)"
    and g: "Col_YEAR = Col_NOTIFICATION_ID \<longrightarrow> (\<forall>s. PInt 2023 \<noteq> PStr s)"
    by simp_all
  have id7: "NOTIFICATION_ID ([mk_row 7 ''text'' PNone] ! 0) = PInt 7"
    by (simp add: mk_row_def)
  have s1: "stored Col_EXPLANATION_SUMMARY (PStr ''ozet;12'') = PStr ''ozet;12''"
    by simp
  have s2: "stored Col_YEAR (PInt 2023) = PStr ''2023''"
    by (simp add: str_int_def str_nat.simps digit_char_def)
  have "get_column Col_EXPLANATION_SUMMARY
          (snd (update_notification [mk_row 7 ''text'' PNone] 7 ''EXPLANATION_SUMMARY''
                  (PStr ''ozet;12'')) ! 0) = PStr ''ozet;12''"
    using update_notification_sets_named_column [OF a b c d, of "[mk_row 7 ''text'' PNone]"] id7 s1
    by simp
  moreover have "get_column Col_YEAR
          (snd (update_notification [mk_row 7 ''text'' PNone] 7 ''YEAR'' (PInt 2023)) ! 0) =
        PStr ''2023''"
    using update_notification_sets_named_column [OF e b f g, of "[mk_row 7 ''text'' PNone]"] id7 s2
    by simp
  moreover have "fst (update_notification [mk_row 7 ''text'' PNone] 7 ''EXPLANATION_SUMMARY''
                        (PStr ''ozet;12'')) = (PInt 1, PStr ''ok'')"
    using update_notification_sets_named_column [OF a b c d, of "[mk_row 7 ''text'' PNone]"]
    by blast
  ultimately show ?thesis
    using a b c e f by simp
qed

subsection \<open>C6: the gap finder\<close>

lemma filter_less_upto: "filter (\<lambda>x. x < d) [i..N] = [i..min (d - 1) (N::int)]"
proof (induction i N rule: upto.induct)
  case (1 i j)
  show ?case
  proof (cases "i \<le> j")
    case True
    note ij = True
    show ?thesis
    proof (cases "i < d")
      case True
      have "filter (\<lambda>x. x < d) [i..j] = i # filter (\<lambda>x. x < d) [i + 1..j]"
        using ij True by (simp add: upto_rec1)
      also have "\<dots> = i # [i + 1..min (d - 1) j]" using 1 ij by simp
      also have "\<dots> = [i..min (d - 1) j]" using ij True by (simp add: upto_rec1)
      finally show ?thesis .
    next
      case False
      have "filter (\<lambda>x. x < d) [i..j] = filter (\<lambda>x. x < d) [i + 1..j]"
        using ij False by (simp add: upto_rec1)
      also have "\<dots> = [i + 1..min (d - 1) j]" using 1 ij by simp
      also have "\<dots> = []" using False by simp
      finally show ?thesis using False by simp
    qed
  next
    case False
    then show ?thesis by simp
  qed
qed

lemma map_add_upto: "map (\<lambda>x. x + m) [i..j] = [i + m..j + (m::int)]"
proof (induction i j rule: upto.induct)
  case (1 i j)
  show ?case
  proof (cases "i \<le> j")
    case True
    then have "map (\<lambda>x. x + m) [i..j] = (i + m) # map (\<lambda>x. x + m) [i + 1..j]"
      by (simp add: upto_rec1)
    also have "\<dots> = (i + m) # [i + 1 + m..j + m]" using 1 True by simp
    also have "\<dots> = [i + m..j + m]" using True by (simp add: upto_rec1 add.commute add.left_commute)
    finally show ?thesis .
  next
    case False
    then show ?thesis by simp
  qed
qed

lemma missing_candidates:
  "map (\<lambda>x. x + m) (filter (\<lambda>x. x < M - m) [1..1000000]) = [m + 1..min (M - 1) (m + 1000000)]"
proof -
  have "min (M - m - 1) 1000000 + m = min (M - 1) (m + 1000000)" by linarith
  then show ?thesis
    by (simp only: filter_less_upto map_add_upto add.commute [of 1 m])
qed

lemma stored_ids_mk_row:
  "stored_ids (map (\<lambda>n. mk_row n e s) ns) = ns"
  by (induction ns) (simp_all add: mk_row_def)

lemma ids_gap_example:
  "map NOTIFICATION_ID gap_example = [PInt 9, PInt 5, PInt 15, PInt 6, PInt 10]"
  by (simp add: gap_example_def mk_row_def)

lemma stored_ids_gap_example: "stored_ids gap_example = [9, 5, 15, 6, 10]"
  unfolding gap_example_def by (rule stored_ids_mk_row)

lemma ids_wide_example: "map NOTIFICATION_ID wide_example = [PInt 1, PInt 1000003]"
  by (simp add: wide_example_def mk_row_def)

lemma stored_ids_wide_example: "stored_ids wide_example = [1, 1000003]"
  by (simp add: wide_example_def mk_row_def)

text \<open>Within the 1000000 candidates the query finds the gaps of the spec's example.\<close>

lemma get_missing_notifications_gap_example:
  "get_missing_notifications gap_example = Some [7, 8, 11, 12, 13, 14]"
proof -
  have mx: "sql_max (map NOTIFICATION_ID gap_example) = PInt 15"
    by (simp add: ids_gap_example sql_max_def)
  have mn: "sql_min (map NOTIFICATION_ID gap_example) = PInt 5"
    by (simp add: ids_gap_example sql_min_def)
  have "get_missing_notifications gap_example =
      Some (filter (\<lambda>cid. cid \<notin> set (stored_ids gap_example)) [5 + 1..min (15 - 1) (5 + 1000000)])"
    by (simp only: get_missing_notifications_def mx mn pyval.case missing_candidates)
  then show ?thesis
    by (simp add: stored_ids_gap_example)
qed

text \<open>
  C6 asks for every id of \<open>[m, M]\<close> that is absent from the store, and the docstring of
  \<open>get_missing_notifications\<close> describes the sequence "from the minimum to maximum
  notification\_id". The recursive table of the query stops at \<open>x = 1000000\<close>: with the
  stored ids \<open>{1, 1000003}\<close> the output is \<open>2, ..., 1000001\<close>, and the absent id 1000002
  of the interval is not reported.
\<close>

theorem get_missing_notifications_stops_at_cap:
  "set (stored_ids wide_example) = {1, 1000003} \<and>
   get_missing_notifications wide_example = Some [2..1000001] \<and>
   (1000002::int) \<in> {1..1000003} \<and>
   1000002 \<notin> set (stored_ids wide_example) \<and>
   (1000002::int) \<notin> set [2..1000001]"
proof -
  have mx: "sql_max (map NOTIFICATION_ID wide_example) = PInt 1000003"
    by (simp add: ids_wide_example sql_max_def)
  have mn: "sql_min (map NOTIFICATION_ID wide_example) = PInt 1"
    by (simp add: ids_wide_example sql_min_def)
  have "get_missing_notifications wide_example =
      Some (filter (\<lambda>cid. cid \<notin> set (stored_ids wide_example))
              [1 + 1..min (1000003 - 1) (1 + 1000000)])"
    by (simp only: get_missing_notifications_def mx mn pyval.case missing_candidates)
  moreover have "[1 + 1..min (1000003 - 1) (1 + 1000000)] = [2..1000001::int]"
    by (simp del: upto_rec_numeral)
  moreover have "filter (\<lambda>cid. cid \<notin> set (stored_ids wide_example)) [2..1000001] = [2..1000001]"
    by (simp add: filter_id_conv stored_ids_wide_example del: upto_rec_numeral)
  ultimately have out: "get_missing_notifications wide_example = Some [2..1000001]"
    by (simp only:)
  have "set (stored_ids wide_example) = {1, 1000003}"
    by (simp add: stored_ids_wide_example)
  moreover have "(1000002::int) \<notin> set [2..1000001]"
    by (simp del: upto_rec_numeral)
  moreover have "(1000002::int) \<in> {1..1000003}" "1000002 \<notin> set (stored_ids wide_example)"
    by (simp_all add: stored_ids_wide_example)
  ultimately show ?thesis
    using out by blast
qed

subsection \<open>C3: the upsert and its commit points\<close>

lemma stored_ids_filter_neq:
  "stored_ids (filter (\<lambda>r. NOTIFICATION_ID r \<noteq> PInt k) db) = filter (\<lambda>n. n \<noteq> k) (stored_ids db)"
  by (induction db) (auto split: pyval.splits)

lemma database_get_notification_deleted:
  "database_get_notification (filter (\<lambda>r. NOTIFICATION_ID r \<noteq> PInt k) db) k = []"
  by (induction db) (simp_all add: database_get_notification_def)

lemma row_of_values_id:
  "row_of_values vs = Some r \<Longrightarrow> NOTIFICATION_ID r = stored Col_NOTIFICATION_ID (vs ! 1)"
  by (erule row_of_values.elims) auto

lemma row_of_values_length: "(\<exists>r. row_of_values vs = Some r) \<longleftrightarrow> length vs = 10"
proof
  assume "\<exists>r. row_of_values vs = Some r"
  then obtain r where "row_of_values vs = Some r" ..
  then show "length vs = 10"
    by (rule row_of_values.elims) auto
next
  assume "length vs = 10"
  then obtain v0 v1 v2 v3 v4 v5 v6 v7 v8 v9 where "vs = [v0, v1, v2, v3, v4, v5, v6, v7, v8, v9]"
    by (auto simp: length_Suc_conv eval_nat_numeral)
  then show "\<exists>r. row_of_values vs = Some r"
    by simp
qed

lemma row_of_values_notification_dict [simp]:
  "row_of_values (dict_values (notification_dict nid f)) = None"
  by (simp add: notification_dict_def dict_values_def)

lemma dict_get_notification_dict [simp]:
  "dict_get (notification_dict nid f) ''notification_id'' d = PInt nid"
  by (simp add: notification_dict_def dict_get_def)

lemma length_notification_dict [simp]: "length (dict_values (notification_dict nid f)) = 9"
  by (simp add: notification_dict_def dict_values_def)

lemma str_nat_9: "str_nat 9 = ''9''"
  by (simp add: str_nat.simps digit_char_def)

lemma save_notification_notification_dict:
  "save_notification db (notification_dict nid f) =
     ((PInt 0,
       PStr ''Incorrect number of bindings supplied. The current statement uses 10, and there are 9 supplied.''),
      filter (\<lambda>r. NOTIFICATION_ID r \<noteq> PInt nid) db)"
  by (simp add: save_notification_def save_notification_steps_def str_nat_9)

text \<open>
  C3, as stated, fails: the delete is committed by \<open>delete_notification\<close> on its own
  connection before the INSERT runs. With id 5 stored, saving a ten-key dictionary for
  id 5 succeeds, yet the table after the first commit holds no row (old record removed,
  new record absent); and saving the nine-key dictionary that \<open>get_notification\<close>
  builds fails at the INSERT and leaves the table in exactly that state.
\<close>

theorem save_notification_not_atomic_counterexample:
  "5 \<in> set (stored_ids [mk_row 5 ''old'' PNone]) \<and>
   fst (save_notification_steps [mk_row 5 ''old'' PNone] notification10) = (PInt 1, PStr ''ok'') \<and>
   hd (snd (save_notification_steps [mk_row 5 ''old'' PNone] notification10)) = [] \<and>
   save_notification [mk_row 5 ''old'' PNone] (notification_dict 5 sample_fields) =
     ((PInt 0,
       PStr ''Incorrect number of bindings supplied. The current statement uses 10, and there are 9 supplied.''),
      [])"
proof -
  have "save_notification [mk_row 5 ''old'' PNone] (notification_dict 5 sample_fields) =
     ((PInt 0,
       PStr ''Incorrect number of bindings supplied. The current statement uses 10, and there are 9 supplied.''),
      [])"
    by (simp add: save_notification_notification_dict mk_row_def)
  moreover have "fst (save_notification_steps [mk_row 5 ''old'' PNone] notification10) =
       (PInt 1, PStr ''ok'') \<and>
     hd (snd (save_notification_steps [mk_row 5 ''old'' PNone] notification10)) = []"
    by (simp add: save_notification_steps_def notification10_def notification_dict_def
          dict_get_def dict_values_def mk_row_def)
  moreover have "5 \<in> set (stored_ids [mk_row 5 ''old'' PNone])"
    by (simp add: mk_row_def)
  ultimately show ?thesis
    by blast
qed

text \<open>
  C3 (amended): for every prior store and every notification whose
  \<open>notification_id\<close> is an integer \<open>k\<close>, \<open>save_notification\<close> removes the rows of \<open>k\<close>
  in a first transaction, which \<open>delete_notification\<close> commits by itself, and inserts
  in a second one. It reports success exactly when the dictionary has ten values that
  can be bound; then the second commit point is the first with the new row appended
  (the ten values in order, as their columns store them), and when the second value is
  \<open>k\<close> exactly one row holds \<open>k\<close>. Otherwise the delete is not undone: the store is left
  with the old record removed and the new record absent. At every commit point at most
  one row holds \<open>k\<close>, and a table with pairwise distinct ids keeps them distinct when
  the second value is \<open>k\<close>.
\<close>

theorem save_notification_commit_points:
  assumes "dict_get notification ''notification_id'' (PInt (- 1)) = PInt k"
  shows "snd (save_notification_steps db notification) \<noteq> [] \<and>
         hd (snd (save_notification_steps db notification)) =
           filter (\<lambda>r. NOTIFICATION_ID r \<noteq> PInt k) db \<and>
         (\<forall>s \<in> set (snd (save_notification_steps db notification)).
            length (database_get_notification s k) \<le> 1) \<and>
         (fst (save_notification db notification) = (PInt 1, PStr ''ok'') \<longleftrightarrow>
            length (dict_values notification) = 10 \<and>
            list_all bindable (dict_values notification)) \<and>
         (fst (save_notification db notification) = (PInt 1, PStr ''ok'') \<and>
          (\<forall>s. dict_values notification ! 1 \<noteq> PStr s) \<longrightarrow>
            (\<exists>r. row_of_values (dict_values notification) = Some r \<and>
                 snd (save_notification_steps db notification) =
                   [filter (\<lambda>r. NOTIFICATION_ID r \<noteq> PInt k) db,
                    filter (\<lambda>r. NOTIFICATION_ID r \<noteq> PInt k) db @ [r]] \<and>
                 snd (save_notification db notification) =
                   filter (\<lambda>r. NOTIFICATION_ID r \<noteq> PInt k) db @ [r])) \<and>
         (fst (save_notification db notification) = (PInt 1, PStr ''ok'') \<and>
          dict_values notification ! 1 = PInt k \<longrightarrow>
            length (database_get_notification (snd (save_notification db notification)) k) = 1) \<and>
         (fst (save_notification db notification) \<noteq> (PInt 1, PStr ''ok'') \<longrightarrow>
            snd (save_notification_steps db notification) =
              [filter (\<lambda>r. NOTIFICATION_ID r \<noteq> PInt k) db] \<and>
            snd (save_notification db notification) =
              filter (\<lambda>r. NOTIFICATION_ID r \<noteq> PInt k) db) \<and>
         (distinct (stored_ids db) \<and> dict_values notification ! 1 = PInt k \<longrightarrow>
            (\<forall>s \<in> set (snd (save_notification_steps db notification)). distinct (stored_ids s)))"
proof (cases "row_of_values (dict_values notification)")
  case None
  then have "length (dict_values notification) \<noteq> 10"
    using row_of_values_length [of "dict_values notification"] by simp
  then show ?thesis
    using assms None
    by (simp add: save_notification_def save_notification_steps_def
          database_get_notification_deleted stored_ids_filter_neq)
next
  case (Some r)
  then have len: "length (dict_values notification) = 10"
    using row_of_values_length [of "dict_values notification"] by blast
  have idr: "NOTIFICATION_ID r = stored Col_NOTIFICATION_ID (dict_values notification ! 1)"
    by (rule row_of_values_id [OF Some])
  let ?db1 = "filter (\<lambda>r. NOTIFICATION_ID r \<noteq> PInt k) db"
  have one: "length (database_get_notification (?db1 @ [r]) k) \<le> 1"
    using database_get_notification_deleted [of k db]
    by (simp add: database_get_notification_def)
  have exact: "length (database_get_notification (?db1 @ [r]) k) = 1"
    if "dict_values notification ! 1 = PInt k"
    using database_get_notification_deleted [of k db] that idr
    by (simp add: database_get_notification_def)
  have dist: "distinct (stored_ids (?db1 @ [r]))"
    if "distinct (stored_ids db)" "dict_values notification ! 1 = PInt k"
    using that idr by (simp add: stored_ids_filter_neq)
  show ?thesis
  proof (cases "list_all bindable (dict_values notification)")
    case True
    then show ?thesis
      using assms Some len one exact dist
      by (simp add: save_notification_def save_notification_steps_def
            database_get_notification_deleted stored_ids_filter_neq)
  next
    case False
    then show ?thesis
      using assms Some len
      by (simp add: save_notification_def save_notification_steps_def
            database_get_notification_deleted stored_ids_filter_neq)
  qed
qed

theorem save_notification_commit_points_witness:
  "dict_get notification10 ''notification_id'' (PInt (- 1)) = PInt 5 \<and>
   dict_values notification10 ! 1 = PInt 5 \<and>
   length (dict_values notification10) = 10 \<and>
   list_all bindable (dict_values notification10) \<and>
   fst (save_notification [mk_row 5 ''old'' PNone] notification10) = (PInt 1, PStr ''ok'') \<and>
   hd (snd (save_notification_steps [mk_row 5 ''old'' PNone] notification10)) = [] \<and>
   length (database_get_notification
             (snd (save_notification [mk_row 5 ''old'' PNone] notification10)) 5) = 1 \<and>
   map EXPLANATIONS (snd (save_notification [mk_row 5 ''old'' PNone] notification10)) =
     [PStr ''Aciklama'']"
proof -
  have h: "dict_get notification10 ''notification_id'' (PInt (- 1)) = PInt 5"
    by (simp add: notification10_def notification_dict_def dict_get_def)
  have v1: "dict_values notification10 ! 1 = PInt 5"
    by (simp add: notification10_def notification_dict_def dict_values_def)
  have len: "length (dict_values notification10) = 10"
    by (simp add: notification10_def notification_dict_def dict_values_def)
  have bind: "list_all bindable (dict_values notification10)"
    by (simp add: notification10_def notification_dict_def dict_values_def)
  note inst = save_notification_commit_points [OF h, of "[mk_row 5 ''old'' PNone]"]
  have ok: "fst (save_notification [mk_row 5 ''old'' PNone] notification10) = (PInt 1, PStr ''ok'')"
    using inst len bind by blast
  have hd0: "hd (snd (save_notification_steps [mk_row 5 ''old'' PNone] notification10)) = []"
    using inst by (simp add: mk_row_def)
  have one: "length (database_get_notification
             (snd (save_notification [mk_row 5 ''old'' PNone] notification10)) 5) = 1"
    using inst ok v1 by blast
  have ex: "map EXPLANATIONS (snd (save_notification [mk_row 5 ''old'' PNone] notification10)) =
     [PStr ''Aciklama'']"
    using h by (simp add: save_notification_def save_notification_steps_def notification10_def
          notification_dict_def dict_values_def mk_row_def sample_fields_def)
  show ?thesis
    using h v1 len bind ok hd0 one ex by blast
qed

subsection \<open>The fetch operation\<close>

lemma get_notification_found:
  assumes "site lang nid (count_list (requests w) nid) = Response 200 (Page f)"
  shows "get_notification site w nid lang False =
           (Inr (Dict (notification_dict nid f)),
            w\<lparr>requests := requests w @ [nid],
              store := filter (\<lambda>r. NOTIFICATION_ID r \<noteq> PInt nid) (store w)\<rparr>)"
  using assms
  by (simp add: get_notification_def Let_def save_notification_notification_dict)

lemma get_notification_request_error:
  assumes "site lang nid (count_list (requests w) nid) = RequestException"
  shows "get_notification site w nid lang return_soup =
           (Inr (Dict [(''error'', PStr ''request error'')]), w\<lparr>requests := requests w @ [nid]\<rparr>)"
  using assms by (simp add: get_notification_def Let_def)

lemma get_notification_not_200:
  assumes "site lang nid (count_list (requests w) nid) = Response status content"
    and "status \<noteq> 200"
  shows "get_notification site w nid lang return_soup =
           (Inr (Dict [(''error'', PStr ''not found'')]), w\<lparr>requests := requests w @ [nid]\<rparr>)"
  using assms by (simp add: get_notification_def Let_def)

text \<open>
  C2 asks that a successful fetch of id \<open>n\<close> leave a row with id \<open>n\<close> in the store. The
  code does the opposite on every successful fetch: the dictionary it builds has nine
  values, the INSERT needs ten, so \<open>save_notification\<close> fails after its delete has been
  committed, and \<open>get_notification\<close> discards that result. Whenever the site answers 200
  with a well-formed page, \<open>get_notification\<close> returns the dictionary and the store
  afterwards is the old store without any row of that id.
\<close>

theorem get_notification_found_not_persisted:
  assumes "site lang nid (count_list (requests w) nid) = Response 200 (Page f)"
  shows "fst (get_notification site w nid lang False) = Inr (Dict (notification_dict nid f)) \<and>
         store (snd (get_notification site w nid lang False)) =
           filter (\<lambda>r. NOTIFICATION_ID r \<noteq> PInt nid) (store w) \<and>
         nid \<notin> set (stored_ids (store (snd (get_notification site w nid lang False))))"
  by (simp add: get_notification_found [of site lang nid w f, OF assms] stored_ids_filter_neq)

theorem get_notification_found_not_persisted_witness:
  "site_all ''tr'' 5 (count_list (requests world5) 5) = Response 200 (Page sample_fields) \<and>
   5 \<in> set (stored_ids (store world5)) \<and>
   fst (get_notification site_all world5 5 ''tr'' False) =
     Inr (Dict (notification_dict 5 sample_fields)) \<and>
   store (snd (get_notification site_all world5 5 ''tr'' False)) = []"
proof -
  have h: "site_all ''tr'' 5 (count_list (requests world5) 5) = Response 200 (Page sample_fields)"
    by (simp add: site_all_def)
  have "store (snd (get_notification site_all world5 5 ''tr'' False)) = []"
    using get_notification_found_not_persisted [of site_all "''tr''" 5 world5 sample_fields, OF h]
    by (simp add: world5_def mk_row_def)
  moreover have "5 \<in> set (stored_ids (store world5))"
    by (simp add: world5_def mk_row_def)
  ultimately show ?thesis
    using get_notification_found_not_persisted [of site_all "''tr''" 5 world5 sample_fields, OF h] h by blast
qed

text \<open>
  C8, as stated, fails: a response with status 503 is reported as \<open>'not found'\<close>, not as
  a request error.
\<close>

theorem get_notification_503_counterexample:
  "get_notification site_503 world100 101 ''tr'' False =
     (Inr (Dict [(''error'', PStr ''not found'')]), world100\<lparr>requests := [101]\<rparr>)"
  by (simp add: get_notification_def site_503_def world100_def)

text \<open>
  C8 (amended): for every id, an exception raised by the request (timeout, connection
  reset, DNS failure) is reported as \<open>{'error': 'request error'}\<close>, and every response
  whose status code is not 200, a 5xx server error included, is reported as
  \<open>{'error': 'not found'}\<close>; in both cases the store is left as it was.
\<close>

theorem get_notification_classification:
  "(site lang nid (count_list (requests w) nid) = RequestException \<longrightarrow>
      get_notification site w nid lang return_soup =
        (Inr (Dict [(''error'', PStr ''request error'')]), w\<lparr>requests := requests w @ [nid]\<rparr>)) \<and>
   (\<forall>status content.
      site lang nid (count_list (requests w) nid) = Response status content \<and> status \<noteq> 200 \<longrightarrow>
      get_notification site w nid lang return_soup =
        (Inr (Dict [(''error'', PStr ''not found'')]), w\<lparr>requests := requests w @ [nid]\<rparr>))"
  by (simp add: get_notification_request_error get_notification_not_200)

theorem get_notification_classification_witness:
  "site_error_105 ''tr'' 105 (count_list (requests world100) 105) = RequestException \<and>
   get_notification site_error_105 world100 105 ''tr'' False =
     (Inr (Dict [(''error'', PStr ''request error'')]), world100\<lparr>requests := [105]\<rparr>) \<and>
   site_frontier ''tr'' 111 (count_list (requests world100) 111) = Response 404 Malformed \<and>
   get_notification site_frontier world100 111 ''tr'' False =
     (Inr (Dict [(''error'', PStr ''not found'')]), world100\<lparr>requests := [111]\<rparr>)"
proof -
  have a: "site_error_105 ''tr'' 105 (count_list (requests world100) 105) = RequestException"
    by (simp add: site_error_105_def)
  have b: "site_frontier ''tr'' 111 (count_list (requests world100) 111) = Response 404 Malformed"
    by (simp add: site_frontier_def)
  have r: "requests world100 = []"
    by (simp add: world100_def)
  show ?thesis
    using get_notification_classification [of site_error_105 "''tr''" 105 world100 False]
      get_notification_classification [of site_frontier "''tr''" 111 world100 False] a b r
    by simp
qed

subsection \<open>The forward crawler\<close>

text \<open>
  C7 asks that the crawler start at \<open>notification_initial_id\<close> on an empty store. Over an
  empty table \<open>get_last_notification\<close> returns the empty list (its test for
  \<open>[(None, None)]\<close> does not apply, so it never returns \<open>-1\<close>), and
  \<open>get_notifications\<close> raises \<open>IndexError\<close> on \<open>[0]\<close> before it requests anything, for every
  site and every limit.
\<close>

theorem get_notifications_empty_store:
  "get_last_notification [] = Rows [] \<and>
   get_notifications site \<lparr>store = [], requests = rs, log_txt = lg\<rparr> limit =
     (Inl IndexError, \<lparr>store = [], requests = rs, log_txt = lg\<rparr>)"
  by (simp add: get_notifications_def get_last_notification_def sql_max_def)

lemma get_notifications_loop_requests:
  assumes "\<forall>nid \<in> set ids. \<forall>k. site ''tr'' nid k \<noteq> Response 200 Malformed"
  shows "fst (get_notifications_loop site w ids) = Inr () \<and>
         requests (snd (get_notifications_loop site w ids)) = requests w @ ids \<and>
         log_txt (snd (get_notifications_loop site w ids)) = log_txt w \<and>
         set (stored_ids (store (snd (get_notifications_loop site w ids)))) \<subseteq>
           set (stored_ids (store w))"
  using assms
proof (induction ids arbitrary: w)
  case Nil
  then show ?case by simp
next
  case (Cons nid ids)
  have tail: "\<forall>n \<in> set ids. \<forall>k. site ''tr'' n k \<noteq> Response 200 Malformed"
    using Cons.prems by simp
  show ?case
  proof (cases "site ''tr'' nid (count_list (requests w) nid)")
    case RequestException
    show ?thesis
      using Cons.IH [OF tail, of "w\<lparr>requests := requests w @ [nid]\<rparr>"]
      by (simp add: get_notification_request_error [of site "''tr''" nid w False, OF RequestException])
  next
    case (Response status content)
    show ?thesis
    proof (cases "status = 200")
      case False
      show ?thesis
        using Cons.IH [OF tail, of "w\<lparr>requests := requests w @ [nid]\<rparr>"]
        by (simp add: get_notification_not_200 [of site "''tr''" nid w status content False, OF Response False])
    next
      case True
      then obtain f where f: "site ''tr'' nid (count_list (requests w) nid) = Response 200 (Page f)"
        using Response Cons.prems by (cases content) auto
      show ?thesis
        using Cons.IH [OF tail, of "w\<lparr>requests := requests w @ [nid],
              store := filter (\<lambda>r. NOTIFICATION_ID r \<noteq> PInt nid) (store w)\<rparr>"]
        by (auto simp: get_notification_found [of site "''tr''" nid w f, OF f] stored_ids_filter_neq)
    qed
  qed
qed

lemma foldl_pick:
  assumes "\<And>a v. f a v = a \<or> f a v = v"
  shows "foldl f a vs \<in> insert a (set vs)"
proof (induction vs arbitrary: a)
  case Nil
  then show ?case by simp
next
  case (Cons v vs)
  show ?case
    using Cons.IH [of "f a v"] assms [of a v] by auto
qed

lemma sql_max_in_set: "sql_max vs \<noteq> PNone \<Longrightarrow> sql_max vs \<in> set vs"
proof -
  assume "sql_max vs \<noteq> PNone"
  moreover have "sql_max vs \<in> insert PNone (set vs)"
    unfolding sql_max_def by (rule foldl_pick) auto
  ultimately show ?thesis
    by auto
qed

lemma get_last_notification_integer:
  assumes "sql_max (map NOTIFICATION_ID db) = PInt m"
  shows "\<exists>d rest. get_last_notification db = Rows ((PInt m, d) # rest)"
proof -
  have "PInt m \<in> set (map NOTIFICATION_ID db)"
    using sql_max_in_set [of "map NOTIFICATION_ID db"] assms by simp
  then have "filter (\<lambda>r. NOTIFICATION_ID r = PInt m) db \<noteq> []"
    by (auto simp: filter_empty_conv)
  then obtain r' rs where rs: "filter (\<lambda>r. NOTIFICATION_ID r = PInt m) db = r' # rs"
    by (cases "filter (\<lambda>r. NOTIFICATION_ID r = PInt m) db") auto
  then have "r' \<in> set (filter (\<lambda>r. NOTIFICATION_ID r = PInt m) db)"
    by simp
  then have id: "NOTIFICATION_ID r' = PInt m"
    by simp
  show ?thesis
    using rs id by (simp add: get_last_notification_def assms)
qed

lemma get_notifications_start:
  assumes "sql_max (map NOTIFICATION_ID (store w)) = PInt m"
  shows "get_notifications site w limit =
           get_notifications_loop site w
             [(if m = - 1 then notification_initial_id else m) + 1 ..
              (if m = - 1 then notification_initial_id else m) + limit]"
proof -
  obtain d rest where "get_last_notification (store w) = Rows ((PInt m, d) # rest)"
    using get_last_notification_integer [OF assms] by blast
  then show ?thesis
    by (simp add: get_notifications_def)
qed

lemma filter_absent_id:
  "nid \<notin> set (stored_ids db) \<Longrightarrow> filter (\<lambda>r. NOTIFICATION_ID r \<noteq> PInt nid) db = db"
  by (auto simp: set_stored_ids filter_id_conv)

lemma get_notifications_loop_fresh:
  assumes "\<forall>nid \<in> set ids. \<forall>k. site ''tr'' nid k \<noteq> Response 200 Malformed"
    and "\<forall>nid \<in> set ids. nid \<notin> set (stored_ids (store w))"
  shows "get_notifications_loop site w ids = (Inr (), w\<lparr>requests := requests w @ ids\<rparr>)"
  using assms
proof (induction ids arbitrary: w)
  case Nil
  then show ?case by simp
next
  case (Cons nid ids)
  have tail: "\<forall>n \<in> set ids. \<forall>k. site ''tr'' n k \<noteq> Response 200 Malformed"
    using Cons.prems by simp
  have fresh: "\<forall>n \<in> set ids. n \<notin> set (stored_ids (store (w\<lparr>requests := requests w @ [nid]\<rparr>)))"
    using Cons.prems by simp
  have step: "get_notifications_loop site (w\<lparr>requests := requests w @ [nid]\<rparr>) ids =
      (Inr (), w\<lparr>requests := requests w @ nid # ids\<rparr>)"
    using Cons.IH [OF tail fresh] by simp
  show ?case
  proof (cases "site ''tr'' nid (count_list (requests w) nid)")
    case RequestException
    show ?thesis
      using step
      by (simp add: get_notification_request_error [of site "''tr''" nid w False, OF RequestException])
  next
    case (Response status content)
    show ?thesis
    proof (cases "status = 200")
      case False
      show ?thesis
        using step
        by (simp add: get_notification_not_200 [of site "''tr''" nid w status content False, OF Response False])
    next
      case True
      then obtain f where f: "site ''tr'' nid (count_list (requests w) nid) = Response 200 (Page f)"
        using Response Cons.prems by (cases content) auto
      have "filter (\<lambda>r. NOTIFICATION_ID r \<noteq> PInt nid) (store w) = store w"
        using Cons.prems by (simp add: filter_absent_id)
      then show ?thesis
        using step
        by (simp add: get_notification_found [of site "''tr''" nid w f, OF f])
    qed
  qed
qed

lemma stored_ids_world100: "stored_ids (store world100) = [100]"
  by (simp add: world100_def mk_row_def)

lemma sql_max_world100: "sql_max (map NOTIFICATION_ID (store world100)) = PInt 100"
  by (simp add: world100_def mk_row_def sql_max_def)

lemma requests_world100: "requests world100 = []"
  by (simp add: world100_def)

text \<open>
  C1 asks that the crawler stop at the first id that is not found. With ids 101 to 110
  found and every later id answering 404, a run from a store whose last id is 100 with
  limit 20 requests all of 101 to 120: the test \<open>isinstance(notif, type(None))\<close> never
  holds for the dictionary \<open>{'error': 'not found'}\<close>. With the limit \<open>-1\<close> that the command
  line documents as "no limit" the range is empty and nothing is requested.
\<close>

theorem get_notifications_runs_past_not_found:
  "get_notifications site_frontier world100 20 =
     (Inr (), world100\<lparr>requests :=
        [101, 102, 103, 104, 105, 106, 107, 108, 109, 110,
         111, 112, 113, 114, 115, 116, 117, 118, 119, 120]\<rparr>) \<and>
   get_notifications site_frontier world100 (- 1) = (Inr (), world100)"
proof -
  have wf: "\<forall>nid \<in> set ids. \<forall>k. site_frontier ''tr'' nid k \<noteq> Response 200 Malformed" for ids
    by (simp add: site_frontier_def)
  have "get_notifications site_frontier world100 20 =
      get_notifications_loop site_frontier world100 [101..120]"
    by (simp add: get_notifications_start [OF sql_max_world100] del: upto_rec_numeral)
  also have "\<dots> = (Inr (), world100\<lparr>requests := requests world100 @ [101..120]\<rparr>)"
    by (rule get_notifications_loop_fresh [of "[101..120]" site_frontier world100, OF wf])
       (simp add: stored_ids_world100)
  finally have a: "get_notifications site_frontier world100 20 =
      (Inr (), world100\<lparr>requests := requests world100 @ [101..120]\<rparr>)" .
  have b: "get_notifications site_frontier world100 (- 1) = (Inr (), world100)"
    by (simp add: get_notifications_start [OF sql_max_world100])
  show ?thesis
    using a b by (simp add: requests_world100)
qed

text \<open>
  C5, as stated, fails: with a request error at id 105 the crawler does not stop at 105
  and surfaces nothing; it requests 101 to 110 and returns \<open>None\<close>.
\<close>

theorem get_notifications_error_105_counterexample:
  "get_notifications site_error_105 world100 10 =
     (Inr (), world100\<lparr>requests := [101, 102, 103, 104, 105, 106, 107, 108, 109, 110]\<rparr>)"
proof -
  have wf: "\<forall>nid \<in> set ids. \<forall>k. site_error_105 ''tr'' nid k \<noteq> Response 200 Malformed" for ids
    by (simp add: site_error_105_def)
  have "get_notifications site_error_105 world100 10 =
      get_notifications_loop site_error_105 world100 [101..110]"
    by (simp add: get_notifications_start [OF sql_max_world100] del: upto_rec_numeral)
  also have "\<dots> = (Inr (), world100\<lparr>requests := requests world100 @ [101..110]\<rparr>)"
    by (rule get_notifications_loop_fresh [of "[101..110]" site_error_105 world100, OF wf])
       (simp add: stored_ids_world100)
  finally show ?thesis
    by (simp add: requests_world100)
qed

text \<open>
  C5 (amended): for every store whose largest id is an integer \<open>last\<close> (the initial id
  standing for \<open>-1\<close>) and every limit, on a run in which every fetch either finds its
  id or returns a request error, \<open>get_notifications\<close> requests each id of
  \<open>last+1, ..., last+limit\<close> exactly once and in increasing order, and returns \<open>None\<close>:
  an id whose fetch returned a request error is not retried, but the loop does not stop
  there and the error is not surfaced.
\<close>

theorem get_notifications_no_retry_no_stop:
  assumes "sql_max (map NOTIFICATION_ID (store w)) = PInt m"
    and "\<forall>nid \<in> set [(if m = - 1 then notification_initial_id else m) + 1 ..
                       (if m = - 1 then notification_initial_id else m) + limit].
           \<forall>k. site ''tr'' nid k = RequestException \<or>
               (\<exists>f. site ''tr'' nid k = Response 200 (Page f))"
  shows "fst (get_notifications site w limit) = Inr () \<and>
         requests (snd (get_notifications site w limit)) =
           requests w @
             [(if m = - 1 then notification_initial_id else m) + 1 ..
              (if m = - 1 then notification_initial_id else m) + limit] \<and>
         distinct [(if m = - 1 then notification_initial_id else m) + 1 ..
                   (if m = - 1 then notification_initial_id else m) + limit]"
proof -
  let ?ids = "[(if m = - 1 then notification_initial_id else m) + 1 ..
               (if m = - 1 then notification_initial_id else m) + limit]"
  have "\<forall>nid \<in> set ?ids. \<forall>k. site ''tr'' nid k \<noteq> Response 200 Malformed"
  proof (intro ballI allI)
    fix nid k assume "nid \<in> set ?ids"
    then have "site ''tr'' nid k = RequestException \<or>
               (\<exists>f. site ''tr'' nid k = Response 200 (Page f))"
      using assms(2) by blast
    then show "site ''tr'' nid k \<noteq> Response 200 Malformed"
      by auto
  qed
  then have "fst (get_notifications_loop site w ?ids) = Inr () \<and>
      requests (snd (get_notifications_loop site w ?ids)) = requests w @ ?ids"
    using get_notifications_loop_requests [of ?ids site w] by blast
  then show ?thesis
    by (simp only: get_notifications_start [OF assms(1)] distinct_upto simp_thms)
qed

theorem get_notifications_no_retry_no_stop_witness:
  "sql_max (map NOTIFICATION_ID (store world100)) = PInt 100 \<and>
   site_error_105 ''tr'' 105 0 = RequestException \<and>
   site_error_105 ''tr'' 106 0 = Response 200 (Page sample_fields) \<and>
   fst (get_notifications site_error_105 world100 10) = Inr () \<and>
   requests (snd (get_notifications site_error_105 world100 10)) =
     [101, 102, 103, 104, 105, 106, 107, 108, 109, 110]"
proof -
  have b: "\<forall>nid \<in> set [(if (100::int) = - 1 then notification_initial_id else 100) + 1 ..
                         (if (100::int) = - 1 then notification_initial_id else 100) + 10].
           \<forall>k. site_error_105 ''tr'' nid k = RequestException \<or>
               (\<exists>f. site_error_105 ''tr'' nid k = Response 200 (Page f))"
    by (simp add: site_error_105_def)
  have c: "site_error_105 ''tr'' 105 0 = RequestException"
    "site_error_105 ''tr'' 106 0 = Response 200 (Page sample_fields)"
    by (simp_all add: site_error_105_def)
  have "fst (get_notifications site_error_105 world100 10) = Inr () \<and>
   requests (snd (get_notifications site_error_105 world100 10)) =
     [101, 102, 103, 104, 105, 106, 107, 108, 109, 110]"
    using get_notifications_no_retry_no_stop
            [where w = world100 and m = 100 and site = site_error_105 and limit = 10,
             OF sql_max_world100 b]
    by (simp add: requests_world100)
  then show ?thesis
    using sql_max_world100 c by blast
qed

subsection \<open>The refresher\<close>

text \<open>
  C4 asks that the refresher retry an id until its fetch stops failing, log the retries
  and persist the id. With a site on which id 7 fails three times and then exists, a
  refresh over \<open>[7, 8)\<close> requests id 7 once, enters the retry loop and raises
  \<open>NameError\<close> at \<open>kr.get_notification(j)\<close>: no second request is made, the store is
  unchanged and nothing is written to the log.
\<close>

theorem refresh_retry_raises_NameError:
  "refresh_all_notifications site_flaky_7 world100 (Some 7) (Some 8) =
     (Inl NameError, world100\<lparr>requests := [7]\<rparr>)"
  by (simp add: refresh_all_notifications_def retry_loop_def
        get_notification_request_error [of site_flaky_7 "''tr''" 7 world100 False]
        site_flaky_7_def requests_world100 dict_get_def)

subsection \<open>C10: the enrichment batch\<close>



lemma enriched_keeps [simp]:
  "NOTIFICATION_ID (enriched api r) = NOTIFICATION_ID r"
  "EXPLANATIONS (enriched api r) = EXPLANATIONS r"
  by (simp_all add: enriched_def split: sum.splits prod.splits)





























end
